theory Spec2Isabelle
  imports Complex_Main "HOL-Library.Sublist"
begin

section \<open>JavaScript values\<close>

text \<open>
  The values that reach the flags, keys and option fields of iDebugConsole.js. Numbers that
  occur as values here (line and column numbers, stray arguments) are integers; \<open>JNaN\<close> is
  kept apart because it is the one falsy number besides zero. \<open>JObj\<close> is a reference to some
  object, identified by its address.
\<close>

datatype jsval = JUndefined | JNull | JBool bool | JNum int | JNaN | JStr string | JObj nat

text \<open>ToBoolean: what \<^verbatim>\<open>if (v)\<close>, \<^verbatim>\<open>!v\<close> and \<^verbatim>\<open>a || b\<close> test.\<close>

fun truthy :: "jsval \<Rightarrow> bool" where
  "truthy JUndefined = False"
| "truthy JNull = False"
| "truthy (JBool b) = b"
| "truthy (JNum n) = (n \<noteq> 0)"
| "truthy JNaN = False"
| "truthy (JStr s) = (s \<noteq> [])"
| "truthy (JObj a) = True"

fun typeof :: "jsval \<Rightarrow> string" where
  "typeof JUndefined = ''undefined''"
| "typeof JNull = ''object''"
| "typeof (JBool b) = ''boolean''"
| "typeof (JNum n) = ''number''"
| "typeof JNaN = ''number''"
| "typeof (JStr s) = ''string''"
| "typeof (JObj a) = ''object''"

text \<open>\<^verbatim>\<open>a || b\<close>: the first operand when it is truthy, the second otherwise.\<close>

definition js_or :: "jsval \<Rightarrow> jsval \<Rightarrow> jsval" where
  "js_or a b = (if truthy a then a else b)"

text \<open>Decimal digits of a natural number, as number-to-string conversion prints them.\<close>

definition digit_char :: "nat \<Rightarrow> char" where
  "digit_char d = ''0123456789'' ! (d mod 10)"

function dec_nat :: "nat \<Rightarrow> string" where
  "dec_nat n = (if n < 10 then [digit_char n] else dec_nat (n div 10) @ [digit_char n])"
  by pat_completeness auto
termination
  by (relation "measure id") auto

declare dec_nat.simps [simp del]

definition dec_int :: "int \<Rightarrow> string" where
  "dec_int i = (if i < 0 then CHR ''-'' # dec_nat (nat (- i)) else dec_nat (nat i))"

text \<open>ToString, as used for property keys and by \<^verbatim>\<open>Array.prototype.join\<close>.\<close>

fun js_toString :: "jsval \<Rightarrow> string" where
  "js_toString JUndefined = ''undefined''"
| "js_toString JNull = ''null''"
| "js_toString (JBool b) = (if b then ''true'' else ''false'')"
| "js_toString (JNum n) = dec_int n"
| "js_toString JNaN = ''NaN''"
| "js_toString (JStr s) = s"
| "js_toString (JObj a) = ''[object Object]''"

text \<open>\<^verbatim>\<open>s.split(c)\<close> for a one-character separator: never empty, \<^verbatim>\<open>"".split(c)\<close> is \<^verbatim>\<open>[""]\<close>.\<close>

fun split_acc :: "char \<Rightarrow> string \<Rightarrow> string \<Rightarrow> string list" where
  "split_acc c cur [] = [rev cur]"
| "split_acc c cur (x # xs) =
     (if x = c then rev cur # split_acc c [] xs else split_acc c (x # cur) xs)"

definition js_split :: "char \<Rightarrow> string \<Rightarrow> string list" where
  "js_split c s = split_acc c [] s"

text \<open>\<^verbatim>\<open>a.slice(begin)\<close>: a negative \<open>begin\<close> counts from the end, and both ends are clamped.\<close>

definition js_slice :: "int \<Rightarrow> 'a list \<Rightarrow> 'a list" where
  "js_slice b xs =
     (let n = int (length xs);
          k = (if b < 0 then max (n + b) 0 else min b n)
      in drop (nat k) xs)"

text \<open>\<^verbatim>\<open>parts.join(sep)\<close> on strings.\<close>

fun js_join :: "string \<Rightarrow> string list \<Rightarrow> string" where
  "js_join sep [] = []"
| "js_join sep [x] = x"
| "js_join sep (x # y # ys) = x @ sep @ js_join sep (y # ys)"

text \<open>\<^verbatim>\<open>s.replace(c, '')\<close> with a string pattern: only the first occurrence goes.\<close>

fun remove_first :: "char \<Rightarrow> string \<Rightarrow> string" where
  "remove_first c [] = []"
| "remove_first c (x # xs) = (if x = c then xs else x # remove_first c xs)"

section \<open>Debugger\<close>

text \<open>
  \<^verbatim>\<open>debug(level)\<close> returns a function; which one is decided when \<^verbatim>\<open>debug\<close> runs. The three
  functions it can return are the constructors of \<open>entry\<close>: the empty function, the view's
  \<^verbatim>\<open>output\<close> bound to the object and the level, and \<^verbatim>\<open>console[level]\<close> bound to the
  console with the \<^verbatim>\<open>arguments\<close> object of \<^verbatim>\<open>debug\<close> as its first argument.
\<close>

datatype entry = Noop | ViewBound nat string | ConsoleBound string "jsval list"

text \<open>What a call of such a function makes observable.\<close>

datatype devent =
    ConsoleCall string "jsval list" "jsval list"
  | ViewOutput nat string "jsval list"
  | Warning string

text \<open>
  A registered object: its \<^verbatim>\<open>_debug\<close> property, its \<^verbatim>\<open>debug\<close> property (absent until
  \<^verbatim>\<open>init\<close> attaches it) and the per-level functions \<^verbatim>\<open>debug[f]\<close>.
\<close>

record dobj =
  debug_flag :: jsval
  debug_entry :: "entry option"
  debug_levels :: "(string \<times> entry) list"

text \<open>
  The closure variables of \<^verbatim>\<open>Debugger.prototype\<close> (\<^verbatim>\<open>globalDebug\<close>, \<^verbatim>\<open>view\<close>,
  \<^verbatim>\<open>allDebuggers\<close>), the objects the program holds, by address, the names of the functions
  of \<^verbatim>\<open>console\<close>, and what has been written so far. \<open>objects_proto\<close> is what the object
  \<^verbatim>\<open>this._objects\<close> inherits through its prototype chain (for an object literal, the
  properties of \<^verbatim>\<open>Object.prototype\<close>): each name with the address of the object it holds.
\<close>

record dworld =
  globalDebug :: jsval
  view :: bool
  allDebuggers :: "nat list"
  heap :: "nat \<Rightarrow> dobj"
  console_fns :: "string list"
  objects_proto :: "(string \<times> nat) list"
  out :: "devent list"

text \<open>\<^verbatim>\<open>this._objects\<close>: the keys in insertion order, each with the address of its object.\<close>

type_synonym objects = "(string \<times> nat) list"

datatype error = TypeError | GroupNotString | GroupMissing | ActiveNotBoolean

text \<open>\<^verbatim>\<open>global(state)\<close>: the value returned and the closure afterwards.\<close>

definition global :: "jsval \<Rightarrow> dworld \<Rightarrow> jsval \<times> dworld" where
  "global st w =
     (if truthy st then (JUndefined, w\<lparr>globalDebug := st\<rparr>)
      else (globalDebug w, w))"

text \<open>\<^verbatim>\<open>state()\<close>: \<^verbatim>\<open>'on'\<close> or \<^verbatim>\<open>'off'\<close> for every key, read through the key's object.\<close>

definition state :: "objects \<Rightarrow> dworld \<Rightarrow> (string \<times> string) list" where
  "state objs w =
     map (\<lambda>(k, a). (k, if truthy (debug_flag (heap w a)) then ''on'' else ''off'')) objs"

definition set_flag :: "jsval \<Rightarrow> nat \<Rightarrow> dworld \<Rightarrow> dworld" where
  "set_flag st a w = w\<lparr>heap := (heap w)(a := (heap w a)\<lparr>debug_flag := st\<rparr>)\<rparr>"

text \<open>
  \<^verbatim>\<open>this._objects[key]\<close>: an own property first, an inherited one otherwise, and
  \<^verbatim>\<open>undefined\<close> (here \<open>None\<close>) when there is neither.
\<close>

definition lookup_object :: "objects \<Rightarrow> dworld \<Rightarrow> string \<Rightarrow> nat option" where
  "lookup_object objs w k =
     (case map_of objs k of Some a \<Rightarrow> Some a | None \<Rightarrow> map_of (objects_proto w) k)"

text \<open>
  \<^verbatim>\<open>setState(state, key)\<close>. With a truthy key the one object is looked up and written, be it
  registered or inherited; a key that gives \<^verbatim>\<open>undefined\<close> throws a TypeError, as writing a
  property of \<^verbatim>\<open>undefined\<close> does, before anything is assigned. With a falsy key every
  registered object is written (the loop sees enumerable properties, which the inherited ones
  of \<^verbatim>\<open>Object.prototype\<close> are not).
\<close>

definition setState ::
  "jsval \<Rightarrow> jsval \<Rightarrow> objects \<Rightarrow> dworld \<Rightarrow> (error + (string \<times> string) list) \<times> dworld" where
  "setState st key objs w =
     (if truthy key then
        (case lookup_object objs w (js_toString key) of
           None \<Rightarrow> (Inl TypeError, w)
         | Some a \<Rightarrow> (let w' = set_flag st a w in (Inr (state objs w'), w')))
      else
        (let w' = fold (\<lambda>(k, a). set_flag st a) objs w in (Inr (state objs w'), w')))"

definition off :: "jsval \<Rightarrow> objects \<Rightarrow> dworld \<Rightarrow> (error + (string \<times> string) list) \<times> dworld" where
  "off key objs w = setState (JBool False) key objs w"

definition on :: "jsval \<Rightarrow> objects \<Rightarrow> dworld \<Rightarrow> (error + (string \<times> string) list) \<times> dworld" where
  "on key objs w = setState (JBool True) key objs w"

text \<open>
  \<^verbatim>\<open>debug.call(obj, level)\<close>: the flags are read here, once, and the function returned
  carries the outcome. \<open>args\<close> is the \<^verbatim>\<open>arguments\<close> object of this call.
\<close>

definition debug :: "nat \<Rightarrow> jsval list \<Rightarrow> dworld \<Rightarrow> entry" where
  "debug a args w =
     (let level = js_toString (js_or (case args of [] \<Rightarrow> JUndefined | l # _ \<Rightarrow> l) (JStr ''log''))
      in if \<not> truthy (globalDebug w) \<or> \<not> truthy (debug_flag (heap w a)) then Noop
         else if view w then ViewBound a level
         else ConsoleBound level args)"

text \<open>The body of the \<^verbatim>\<open>for (var key in this._objects)\<close> loop of \<^verbatim>\<open>init\<close>.\<close>

definition attach :: "nat \<Rightarrow> dworld \<Rightarrow> dworld" where
  "attach a w =
     (let w1 = w\<lparr>allDebuggers := allDebuggers w @ [a]\<rparr>;
          e = debug a [] w1;
          ls = map (\<lambda>f. (f, debug a [JStr f] w1)) (console_fns w1)
      in w1\<lparr>heap := (heap w1)(a := (heap w1 a)\<lparr>debug_entry := Some e, debug_levels := ls\<rparr>)\<rparr>)"

text \<open>\<^verbatim>\<open>init(state)\<close>, which is all the constructor \<^verbatim>\<open>Debugger(objects, state)\<close> runs.\<close>

definition init :: "jsval \<Rightarrow> objects \<Rightarrow> dworld \<Rightarrow> dworld" where
  "init st objs w =
     (let w1 = (if \<not> truthy st \<and> st \<noteq> JBool False
                then w\<lparr>out := out w @ [Warning ''You have not supplied a debug state for'']\<rparr>
                else w);
          w2 = snd (setState st JUndefined objs w1)
      in fold (\<lambda>(k, a). attach a) objs w2)"

text \<open>Calling a function that \<^verbatim>\<open>debug\<close> returned, with the message arguments.\<close>

fun call_entry :: "entry \<Rightarrow> jsval list \<Rightarrow> dworld \<Rightarrow> dworld" where
  "call_entry Noop args w = w"
| "call_entry (ViewBound a level) args w = w\<lparr>out := out w @ [ViewOutput a level args]\<rparr>"
| "call_entry (ConsoleBound level bound) args w =
     w\<lparr>out := out w @ [ConsoleCall level bound args]\<rparr>"

text \<open>\<^verbatim>\<open>obj.debug(args)\<close>: the property is read from the object and called.\<close>

definition call_debug :: "nat \<Rightarrow> jsval list \<Rightarrow> dworld \<Rightarrow> error + dworld" where
  "call_debug a args w =
     (case debug_entry (heap w a) of
        None \<Rightarrow> Inl TypeError
      | Some e \<Rightarrow> Inr (call_entry e args w))"

text \<open>
  The closure as the script leaves it when \<^verbatim>\<open>window.iDebugMode\<close> was not set before loading:
  the global flag is \<^verbatim>\<open>false\<close> and no view exists. The objects carry no debug properties yet.
  The objects at the addresses from 100 are the functions of \<^verbatim>\<open>Object.prototype\<close>, and
  \<^verbatim>\<open>Object.prototype\<close> itself under \<^verbatim>\<open>__proto__\<close>.
\<close>

definition fresh_obj :: dobj where
  "fresh_obj = \<lparr>debug_flag = JUndefined, debug_entry = None, debug_levels = []\<rparr>"

definition initial_dworld :: dworld where
  "initial_dworld =
     \<lparr>globalDebug = JBool False, view = False, allDebuggers = [], heap = (\<lambda>a. fresh_obj),
      console_fns = [''log'', ''info'', ''warn'', ''error''],
      objects_proto =
        [(''constructor'', 100), (''toString'', 101), (''toLocaleString'', 102),
         (''valueOf'', 103), (''hasOwnProperty'', 104), (''isPrototypeOf'', 105),
         (''propertyIsEnumerable'', 106), (''__proto__'', 107)],
      out = []\<rparr>"

text \<open>\<^verbatim>\<open>{a: objA}\<close>, and \<^verbatim>\<open>{model: x, view: x}\<close>, one object under two keys.\<close>

definition one_object :: objects where
  "one_object = [(''a'', 0)]"

definition aliased_objects :: objects where
  "aliased_objects = [(''model'', 0), (''view'', 0)]"

definition two_objects :: objects where
  "two_objects = [(''model'', 0), (''view'', 1)]"

section \<open>LogLocation\<close>

text \<open>
  The \<^verbatim>\<open>Error\<close> object that the constructor throws and catches: the platform fills in
  \<^verbatim>\<open>stack\<close> (absent on engines without stack traces) and, on some engines, \<^verbatim>\<open>url\<close>,
  \<^verbatim>\<open>line\<close>, \<^verbatim>\<open>lineNumber\<close> and \<^verbatim>\<open>column\<close>.
\<close>

record jserror =
  e_stack :: "string option"
  e_url :: jsval
  e_line :: jsval
  e_lineNumber :: jsval
  e_column :: jsval

text \<open>The \<^verbatim>\<open>options\<close> argument; an undefined argument is replaced by \<^verbatim>\<open>{}\<close>.\<close>

record lopts =
  o_url :: jsval
  o_line :: jsval
  o_offset :: "int option"

definition no_options :: lopts where
  "no_options = \<lparr>o_url = JUndefined, o_line = JUndefined, o_offset = None\<rparr>"

record loglocation =
  stack :: "string list"
  url :: jsval
  loc :: string
  path :: string
  "file" :: string
  line :: jsval
  col :: jsval
  str :: string

record locparts =
  l_line :: jsval
  l_col :: jsval
  l_file :: string
  l_path :: string

definition baseIndex :: int where
  "baseIndex = 4"

text \<open>\<^verbatim>\<open>a[i]\<close> on an array of strings: \<^verbatim>\<open>undefined\<close> past the end.\<close>

definition str_at :: "string list \<Rightarrow> nat \<Rightarrow> jsval" where
  "str_at xs i = (if i < length xs then JStr (xs ! i) else JUndefined)"

text \<open>
  The fallback loop of \<^verbatim>\<open>getStack\<close> starts at \<^verbatim>\<open>arguments.callee\<close>, which is \<^verbatim>\<open>getStack\<close>
  itself, pushes the name matched in its source text, and goes on to
  \<^verbatim>\<open>currentFunction.callee\<close>; a function object has no such property, so the loop ends
  after one round.
\<close>

definition callee_names :: "string list" where
  "callee_names = [''getStack'']"

definition getStack :: "jserror \<Rightarrow> int option \<Rightarrow> string list" where
  "getStack e offset =
     (let index = baseIndex + (case offset of None \<Rightarrow> 0 | Some k \<Rightarrow> k);
          stackS = (case e_stack e of None \<Rightarrow> [] | Some s \<Rightarrow> s);
          stackA = js_slice index (js_split CHR 0x0A stackS)
      in if \<not> (length stackA \<noteq> 0 \<and> hd stackA \<noteq> [])
         then js_slice (index - 2) (stackA @ callee_names)
         else stackA)"

text \<open>\<^verbatim>\<open>locFromUrl(url)\<close>; \<^verbatim>\<open>parts.pop()\<close> takes the last part and leaves the others.\<close>

definition locFromUrl :: "string \<Rightarrow> locparts" where
  "locFromUrl u =
     (let parts = js_split CHR ''/'' u;
          l = remove_first CHR ''('' (remove_first CHR '')'' (last parts));
          locL = js_split CHR '':'' l
      in \<lparr>l_line = str_at locL 1, l_col = str_at locL 2,
          l_file = (case locL of [] \<Rightarrow> [] | f # _ \<Rightarrow> f),
          l_path = js_join ''/'' (butlast parts)\<rparr>)"

text \<open>An element of \<^verbatim>\<open>[file, line, col].join(':')\<close>: \<^verbatim>\<open>undefined\<close> and \<^verbatim>\<open>null\<close> print as nothing.\<close>

definition join_elem :: "jsval \<Rightarrow> string" where
  "join_elem v = (if v = JUndefined \<or> v = JNull then [] else js_toString v)"

text \<open>
  The constructor \<^verbatim>\<open>LogLocation(options)\<close> with its \<^verbatim>\<open>init(e, offset)\<close>. \<^verbatim>\<open>url.split\<close> in
  \<^verbatim>\<open>locFromUrl\<close> is the one place that can throw: a truthy \<^verbatim>\<open>url\<close> that is not a string has
  no such method.
\<close>

definition LogLocation :: "lopts \<Rightarrow> jserror \<Rightarrow> error + loglocation" where
  "LogLocation options e =
     (let stk = getStack e (o_offset options);
          u = js_or (js_or (js_or (o_url options) (e_url e)) (str_at stk 0)) (JStr ''?'')
      in case u of
           JStr us \<Rightarrow>
             (let lp = locFromUrl us;
                  f = (if l_file lp \<noteq> [] then l_file lp else ''?'');
                  ln = js_or (js_or (js_or (js_or (o_line options) (l_line lp)) (e_line e))
                         (e_lineNumber e)) (JStr ''?'');
                  c = js_or (js_or (l_col lp) (e_column e)) (JStr []);
                  s = ''('' @ js_join '':'' [f, join_elem ln, join_elem c] @ '')''
              in Inr \<lparr>stack = stk, url = u, loc = s, path = l_path lp, file = f, line = ln,
                      col = c, str = s\<rparr>)
         | _ \<Rightarrow> Inl TypeError)"

definition toString :: "loglocation \<Rightarrow> string" where
  "toString l = str l"

text \<open>An error object of a platform that yields no trace and no position at all.\<close>

definition empty_error :: jserror where
  "empty_error = \<lparr>e_stack = Some [], e_url = JUndefined, e_line = JUndefined,
     e_lineNumber = JUndefined, e_column = JUndefined\<rparr>"

section \<open>Profiler\<close>

text \<open>
  Numbers are IEEE 754 doubles. A finite double is given by its value, a rational (the two
  zeros are not told apart); \<open>jsnum\<close> adds \<^verbatim>\<open>NaN\<close> and the infinities. Every arithmetic
  operation gives the double nearest to the exact result, the one with the even
  significand on a tie, and an infinity from \<open>2^1024\<close> on.
\<close>

datatype jsnum = Fin rat | NaN | Infinity | NegInfinity

text \<open>The number of binary digits of a natural number.\<close>

function bit_length :: "nat \<Rightarrow> nat" where
  "bit_length n = (if n = 0 then 0 else Suc (bit_length (n div 2)))"
  by pat_completeness auto
termination
  by (relation "measure id") auto

declare bit_length.simps [simp del]

definition pow2 :: "int \<Rightarrow> rat" where
  "pow2 e = (if 0 \<le> e then 2 ^ nat e else 1 / 2 ^ nat (- e))"

text \<open>The binary exponent of a positive rational: \<open>pow2 (ilog2 a) \<le> a < pow2 (ilog2 a + 1)\<close>.\<close>

definition ilog2 :: "rat \<Rightarrow> int" where
  "ilog2 a = (if 1 \<le> a then int (bit_length (nat \<lfloor>a\<rfloor>)) - 1
              else - int (bit_length (nat (\<lceil>1 / a\<rceil> - 1))))"

definition round_half_even :: "rat \<Rightarrow> int" where
  "round_half_even q =
     (let f = \<lfloor>q\<rfloor>; d = q - of_int f
      in if d < 1 / 2 then f else if 1 / 2 < d then f + 1 else if even f then f else f + 1)"

text \<open>
  Rounding to a double: 53 significant bits, the unit in the last place never below
  \<open>2^-1074\<close> (the subnormal range), overflow to an infinity.
\<close>

definition round_double :: "rat \<Rightarrow> jsnum" where
  "round_double x =
     (if x = 0 then Fin 0
      else (let a = \<bar>x\<bar>;
                e = max (ilog2 a - 52) (- 1074);
                y = of_int (round_half_even (a / pow2 e)) * pow2 e
            in if pow2 1024 \<le> y then (if x < 0 then NegInfinity else Infinity)
               else Fin (if x < 0 then - y else y)))"

text \<open>
  The same where the result is known to be finite: the readings of both time sources, and
  so their differences, are far below the overflow threshold.
\<close>

definition double_value :: "rat \<Rightarrow> rat" where
  "double_value x = (case round_double x of Fin y \<Rightarrow> y | _ \<Rightarrow> x)"

text \<open>\<^verbatim>\<open>a + b\<close> and \<^verbatim>\<open>a / b\<close> on numbers.\<close>

fun num_add :: "jsnum \<Rightarrow> jsnum \<Rightarrow> jsnum" where
  "num_add NaN b = NaN"
| "num_add a NaN = NaN"
| "num_add (Fin a) (Fin b) = round_double (a + b)"
| "num_add Infinity NegInfinity = NaN"
| "num_add NegInfinity Infinity = NaN"
| "num_add Infinity b = Infinity"
| "num_add NegInfinity b = NegInfinity"
| "num_add (Fin a) b = b"

fun num_div :: "jsnum \<Rightarrow> jsnum \<Rightarrow> jsnum" where
  "num_div NaN b = NaN"
| "num_div a NaN = NaN"
| "num_div (Fin a) (Fin b) =
     (if b \<noteq> 0 then round_double (a / b)
      else if a = 0 then NaN else if 0 < a then Infinity else NegInfinity)"
| "num_div (Fin a) b = Fin 0"
| "num_div Infinity (Fin b) = (if b < 0 then NegInfinity else Infinity)"
| "num_div NegInfinity (Fin b) = (if b < 0 then Infinity else NegInfinity)"
| "num_div a b = NaN"

text \<open>
  \<^verbatim>\<open>x.toFixed(d)\<close> for a finite \<open>x\<close> of magnitude below \<open>10^21\<close>: the sign, then the integer
  \<open>n\<close> nearest to \<open>x * 10^d\<close> (the larger one on a tie), padded with zeros to at least
  \<open>d + 1\<close> digits, with a point before the last \<open>d\<close> digits.
\<close>

definition toFixed :: "rat \<Rightarrow> nat \<Rightarrow> string" where
  "toFixed x d =
     (let a = \<bar>x\<bar>;
          n = nat \<lfloor>a * 10 ^ d + 1 / 2\<rfloor>;
          m = dec_nat n;
          z = replicate (d + 1 - length m) CHR ''0'' @ m;
          k = length z
      in (if x < 0 then ''-'' else [])
         @ (if d \<noteq> 0 then take (k - d) z @ ''.'' @ drop (k - d) z else m))"

fun num_toFixed :: "jsnum \<Rightarrow> nat \<Rightarrow> string" where
  "num_toFixed (Fin x) d = toFixed x d"
| "num_toFixed NaN d = ''NaN''"
| "num_toFixed Infinity d = ''Infinity''"
| "num_toFixed NegInfinity d = ''-Infinity''"

text \<open>An element of \<^verbatim>\<open>this.results\<close>: \<^verbatim>\<open>{name: ..., time: ...}\<close>.\<close>

record result =
  res_name :: string
  res_time :: rat

text \<open>A Profiler instance; \<open>p_group\<close> and \<open>p_active\<close> are \<^verbatim>\<open>_group\<close> and \<^verbatim>\<open>_active\<close>.\<close>

record profiler =
  startTime :: rat
  stopTime :: rat
  running :: bool
  currentName :: string
  prevName :: string
  initName :: string
  p_group :: string
  p_active :: bool
  results :: "result list"
  performance :: bool
  useTable :: bool

text \<open>A row of the report: the two numbers as \<^verbatim>\<open>toFixed\<close> printed them.\<close>

record row =
  row_ms :: string
  row_s :: string

text \<open>
  What the profiler writes: the line of \<^verbatim>\<open>printElapsed\<close> (its label and the two numbers it
  prints), and the report of \<^verbatim>\<open>printResults\<close>, either as \<^verbatim>\<open>console.info\<close> and
  \<^verbatim>\<open>console.table(rows)\<close> or as one \<^verbatim>\<open>console.log\<close> of a text block that lists the same rows
  under the same name. The rows are the object \<^verbatim>\<open>rows\<close>, from keys to rows; the order in
  which they are listed and the layout of the block are not modelled.
\<close>

datatype pevent =
    LogElapsed string rat rat
  | InfoHeader string
  | Table "string \<rightharpoonup> row"
  | LogBlock string "string \<rightharpoonup> row"

text \<open>
  \<^verbatim>\<open>Profiler.groups\<close> (its own entries, and in \<open>groups_proto\<close> what this plain object inherits
  from \<^verbatim>\<open>Object.prototype\<close>), the two time sources (the value of the double that the
  \<open>n\<close>-th reading returns), what the platform offers (\<^verbatim>\<open>window.performance\<close>, \<^verbatim>\<open>console.table\<close>, a user agent matching
  \<^verbatim>\<open>/MSIE|Edge/i\<close>), and what has been written.
\<close>

record pworld =
  groups :: "string \<rightharpoonup> jsval"
  groups_proto :: "string \<rightharpoonup> jsval"
  clock_perf :: "nat \<Rightarrow> rat"
  clock_date :: "nat \<Rightarrow> rat"
  ticks :: nat
  win_performance :: bool
  console_table :: bool
  ua_msie_edge :: bool
  pout :: "pevent list"

text \<open>
  \<^verbatim>\<open>Profiler.groups[name]\<close>, an own entry first and an inherited one otherwise, and the test
  \<^verbatim>\<open>v == undefined\<close>.
\<close>

definition group_lookup :: "pworld \<Rightarrow> string \<Rightarrow> jsval" where
  "group_lookup w g =
     (case groups w g of
        Some v \<Rightarrow> v
      | None \<Rightarrow> (case groups_proto w g of None \<Rightarrow> JUndefined | Some v \<Rightarrow> v))"

definition loose_undefined :: "jsval \<Rightarrow> bool" where
  "loose_undefined v = (v = JUndefined \<or> v = JNull)"

text \<open>
  \<^verbatim>\<open>group(overide)\<close>. The registry is written before the type of the name is tested, under
  the name as a property key.
\<close>

definition group_fn :: "jsval \<Rightarrow> profiler \<Rightarrow> pworld \<Rightarrow> (error + string) \<times> profiler \<times> pworld" where
  "group_fn overide p w =
     (if overide \<noteq> JUndefined then
        (let k = js_toString overide;
             w1 = w\<lparr>groups := (groups w)(k \<mapsto>
                    (if loose_undefined (group_lookup w k) then JBool True
                     else group_lookup w k))\<rparr>
         in if typeof overide \<noteq> ''string'' then (Inl GroupNotString, p, w1)
            else if group_lookup w1 k = JUndefined then (Inl GroupMissing, p, w1)
            else (Inr k, p\<lparr>p_group := k\<rparr>, w1))
      else (Inr (p_group p), p, w))"

text \<open>The value of \<^verbatim>\<open>this._active && Profiler.groups[this._group]\<close>.\<close>

definition active_get :: "profiler \<Rightarrow> pworld \<Rightarrow> jsval" where
  "active_get p w = (if p_active p then group_lookup w (p_group p) else JBool False)"

definition active :: "jsval \<Rightarrow> profiler \<Rightarrow> pworld \<Rightarrow> (error + jsval) \<times> profiler" where
  "active overide p w =
     (if overide \<noteq> JUndefined then
        (if typeof overide \<noteq> ''boolean'' then (Inl ActiveNotBoolean, p)
         else (let p1 = p\<lparr>p_active := truthy overide\<rparr> in (Inr (active_get p1 w), p1)))
      else (Inr (active_get p w), p))"

text \<open>
  \<^verbatim>\<open>currentTime()\<close> is called without a receiver, so its \<^verbatim>\<open>this\<close> is the global object and
  \<^verbatim>\<open>this.performance\<close> is \<^verbatim>\<open>window.performance\<close>: the time source is chosen by the platform,
  and the \<^verbatim>\<open>performance\<close> field of the instance is not read.
\<close>

definition clock_of :: "pworld \<Rightarrow> nat \<Rightarrow> rat" where
  "clock_of w n = (if win_performance w then clock_perf w n else clock_date w n)"

definition currentTime :: "pworld \<Rightarrow> rat \<times> pworld" where
  "currentTime w = (clock_of w (ticks w), w\<lparr>ticks := Suc (ticks w)\<rparr>)"

text \<open>\<^verbatim>\<open>name || this.currentName\<close> for an optional string argument.\<close>

definition name_or :: "string option \<Rightarrow> string \<Rightarrow> string" where
  "name_or nm cur = (case nm of None \<Rightarrow> cur | Some n \<Rightarrow> if n \<noteq> [] then n else cur)"

definition getElapsedMilliseconds :: "profiler \<Rightarrow> pworld \<Rightarrow> rat \<times> profiler \<times> pworld" where
  "getElapsedMilliseconds p w =
     (if running p then
        (let (t, w1) = currentTime w; p1 = p\<lparr>stopTime := t\<rparr>
         in (double_value (stopTime p1 - startTime p1), p1, w1))
      else (double_value (stopTime p - startTime p), p, w))"

definition getElapsedSeconds :: "profiler \<Rightarrow> pworld \<Rightarrow> rat \<times> profiler \<times> pworld" where
  "getElapsedSeconds p w =
     (let (ms, p1, w1) = getElapsedMilliseconds p w in (double_value (ms / 1000), p1, w1))"

definition printElapsed :: "string option \<Rightarrow> profiler \<Rightarrow> pworld \<Rightarrow> profiler \<times> pworld" where
  "printElapsed nm p w =
     (let p1 = p\<lparr>currentName := name_or nm (currentName p)\<rparr>;
          label = currentName p1 @ '' [Elapsed Time] = '';
          (ms, p2, w2) = getElapsedMilliseconds p1 w;
          (sec, p3, w3) = getElapsedSeconds p2 w2
      in (p3, w3\<lparr>pout := pout w3 @ [LogElapsed label ms sec]\<rparr>))"

text \<open>The variables of the loop of \<^verbatim>\<open>printResults\<close>, \<^verbatim>\<open>this.prevName\<close> with them.\<close>

record acc =
  secTotal :: jsnum
  msTotal :: jsnum
  count :: nat
  rows :: "string \<rightharpoonup> row"
  a_prevName :: string

text \<open>The name shown for a result: generic and repeated names are dropped.\<close>

definition shown_name :: "string \<Rightarrow> string \<Rightarrow> string" where
  "shown_name nm prev =
     (let n1 = (if nm \<noteq> [] \<and> prefix ''function'' nm then []
                else if nm \<noteq> [] \<and> prefix ''Unnamed timer'' nm then []
                else if nm = prev then []
                else nm)
      in if n1 \<noteq> [] then '' '' @ n1 else n1)"

text \<open>One round of \<^verbatim>\<open>for (var i in this.results)\<close>, for the result at index \<open>i\<close>.\<close>

definition add_row :: "nat \<Rightarrow> result \<Rightarrow> acc \<Rightarrow> acc" where
  "add_row i r a =
     (let t = res_time r;
          nm = shown_name (res_name r) (a_prevName a)
      in \<lparr>secTotal = num_add (secTotal a) (num_div (Fin t) (Fin 1000)),
          msTotal = num_add (msTotal a) (Fin t),
          count = Suc (count a),
          rows = (rows a)(dec_nat i @ nm \<mapsto>
                   \<lparr>row_ms = toFixed t 2,
                    row_s = num_toFixed (num_div (Fin t) (Fin 1000)) 6\<rparr>),
          a_prevName = nm\<rparr>)"

fun add_rows :: "nat \<Rightarrow> result list \<Rightarrow> acc \<Rightarrow> acc" where
  "add_rows i [] a = a"
| "add_rows i (r # rs) a = add_rows (Suc i) rs (add_row i r a)"

text \<open>
  The rows of \<^verbatim>\<open>printResults\<close> once \<^verbatim>\<open>total\<close> and \<^verbatim>\<open>avrg\<close> are added; the two totals have
  been summed apart, each from its own terms.
\<close>

definition final_rows :: "acc \<Rightarrow> string \<rightharpoonup> row" where
  "final_rows a =
     (let msAverg = num_toFixed (num_div (msTotal a) (Fin (of_nat (count a)))) 2;
          secAverg = num_toFixed (num_div (secTotal a) (Fin (of_nat (count a)))) 6
      in (rows a)
           (''total'' \<mapsto> \<lparr>row_ms = num_toFixed (msTotal a) 2, row_s = num_toFixed (secTotal a) 6\<rparr>,
            ''avrg'' \<mapsto> \<lparr>row_ms = msAverg, row_s = secAverg\<rparr>))"

definition report_rows :: "profiler \<Rightarrow> string \<rightharpoonup> row" where
  "report_rows p =
     final_rows (add_rows 0 (results p)
       \<lparr>secTotal = Fin 0, msTotal = Fin 0, count = 0, rows = Map.empty,
        a_prevName = prevName p\<rparr>)"

definition printResults :: "string option \<Rightarrow> profiler \<Rightarrow> pworld \<Rightarrow> profiler \<times> pworld" where
  "printResults nm p w =
     (let p1 = p\<lparr>currentName := name_or nm (currentName p)\<rparr>;
          a = add_rows 0 (results p1)
                \<lparr>secTotal = Fin 0, msTotal = Fin 0, count = 0, rows = Map.empty,
                 a_prevName = prevName p1\<rparr>;
          p2 = p1\<lparr>prevName := a_prevName a\<rparr>;
          rs = final_rows a
      in if useTable p2
         then (p2, w\<lparr>pout := pout w @
                 [InfoHeader (''PROFILER RESULTS FOR: '' @ initName p2 @ '' ''), Table rs]\<rparr>)
         else (p2, w\<lparr>pout := pout w @ [LogBlock (initName p2) rs]\<rparr>))"

text \<open>\<^verbatim>\<open>stop(print)\<close>.\<close>

definition stop :: "jsval \<Rightarrow> profiler \<Rightarrow> pworld \<Rightarrow> profiler \<times> pworld" where
  "stop print p w =
     (let (t, w1) = currentTime w;
          p1 = p\<lparr>stopTime := t, running := False\<rparr>
      in if truthy (active_get p1 w1) then
           (let p2 = p1\<lparr>results := results p1 @
                       [\<lparr>res_name = currentName p1,
                         res_time = double_value (stopTime p1 - startTime p1)\<rparr>]\<rparr>
            in if print = JStr ''elapsed'' then printElapsed None p2 w1
               else if truthy print then printResults None p2 w1
               else (p2, w1))
         else (p1, w1))"

text \<open>\<^verbatim>\<open>start(name)\<close>.\<close>

definition start :: "string option \<Rightarrow> profiler \<Rightarrow> pworld \<Rightarrow> profiler \<times> pworld" where
  "start nm p w =
     (if \<not> truthy (active_get p w) then (p, w)
      else
        (let (p1, w1) = (if running p then stop JUndefined p w else (p, w));
             p2 = p1\<lparr>currentName := name_or nm (currentName p1)\<rparr>;
             (t, w2) = currentTime w1
         in (p2\<lparr>startTime := t, running := True\<rparr>, w2)))"

text \<open>
  A function given to the constructor: its \<^verbatim>\<open>name\<close> (empty for an anonymous one), its
  \<^verbatim>\<open>prototype\<close> (\<open>None\<close> when it has none, as arrow functions do; otherwise the
  \<^verbatim>\<open>name\<close> read from it, empty when there is no such property), its source text, and the
  value it returns for given arguments.
\<close>

record fn =
  fn_name :: string
  fn_prototype :: "string option"
  fn_text :: string
  fn_apply :: "jsval list \<Rightarrow> jsval"

datatype target = TUndefined | TName string | TFn fn

record poptions =
  opt_name :: "string option"
  opt_group :: jsval
  opt_active :: jsval
  opt_performance :: jsval
  opt_table :: jsval

text \<open>
  The second argument: absent, a name, an options object, or \<^verbatim>\<open>null\<close>, which has the type
  \<^verbatim>\<open>'object'\<close> and so takes the place of the options.
\<close>

datatype name_arg = NUndefined | NStr string | NOpts poptions | NNull

text \<open>
  What \<^verbatim>\<open>new Profiler(...)\<close> evaluates to: the instance itself, the wrapper made by
  \<^verbatim>\<open>decorate\<close> (which carries the instance as its \<^verbatim>\<open>profiler\<close> property), or the function
  that was passed in.
\<close>

datatype pret = Instance | Wrapper fn | Original fn

fun has_profiler_property :: "pret \<Rightarrow> bool" where
  "has_profiler_property (Wrapper f) = True"
| "has_profiler_property (Original f) = False"
| "has_profiler_property Instance = False"

definition decorate :: "fn \<Rightarrow> pret" where
  "decorate objectToTime = Wrapper objectToTime"

text \<open>
  The name taken from the function when no name was given:
  \<^verbatim>\<open>objectToTime.name || objectToTime.prototype.name || objectToTime.toString()...\<close>. When
  the name is empty, \<^verbatim>\<open>prototype.name\<close> is read, which throws a TypeError on a function
  without a prototype.
\<close>

definition fn_display_name :: "fn \<Rightarrow> error + string" where
  "fn_display_name f =
     (if fn_name f \<noteq> [] then Inr (fn_name f)
      else (case fn_prototype f of
              None \<Rightarrow> Inl TypeError
            | Some pn \<Rightarrow>
                if pn \<noteq> [] then Inr pn
                else Inr (case js_split CHR ''{'' (take 40 (fn_text f)) of [] \<Rightarrow> [] | x # _ \<Rightarrow> x)))"

text \<open>\<^verbatim>\<open>_initPrototype\<close>; the name is settled before the instance is asked whether it is active.\<close>

definition initPrototype :: "target \<Rightarrow> profiler \<Rightarrow> pworld \<Rightarrow> error + pret \<times> profiler" where
  "initPrototype objectToTime p w =
     (case (if currentName p = [] then
              (case objectToTime of TFn f \<Rightarrow> fn_display_name f | _ \<Rightarrow> Inr ''Unnamed timer'')
            else Inr (currentName p)) of
        Inl err \<Rightarrow> Inl err
      | Inr n1 \<Rightarrow>
          (let n2 = (if prefix ''function'' n1 then ''unnamed '' @ n1 else n1);
               p1 = p\<lparr>currentName := n2\<rparr>;
               ret = (case objectToTime of
                        TFn f \<Rightarrow> if truthy (active_get p1 w) then decorate f else Original f
                      | _ \<Rightarrow> Instance)
           in Inr (ret, p1\<lparr>prevName := currentName p1, initName := currentName p1\<rparr>)))"

text \<open>
  The constructor. A name that is absent is kept as the empty string until \<^verbatim>\<open>_initPrototype\<close>
  replaces it (both are falsy there). \<^verbatim>\<open>group\<close>, \<^verbatim>\<open>active\<close> and \<^verbatim>\<open>_initPrototype\<close> can
  throw, after the registry was written; with \<^verbatim>\<open>null\<close> for the options the first property
  read throws.
\<close>

definition Profiler ::
  "target \<Rightarrow> name_arg \<Rightarrow> poptions option \<Rightarrow> pworld \<Rightarrow> (error + pret \<times> profiler) \<times> pworld" where
  "Profiler objectToTime nm options w =
     (if nm = NNull then (Inl TypeError, w)
      else
     (let o1 = (case nm of
                  NOpts os \<Rightarrow> os
                | _ \<Rightarrow> (case options of
                          Some os \<Rightarrow> os
                        | None \<Rightarrow> \<lparr>opt_name = (case nm of NStr s \<Rightarrow> Some s | _ \<Rightarrow> None),
                                   opt_group = JUndefined, opt_active = JUndefined,
                                   opt_performance = JUndefined, opt_table = JUndefined\<rparr>));
          o2 = (case objectToTime of TName s \<Rightarrow> o1\<lparr>opt_name := Some s\<rparr> | _ \<Rightarrow> o1);
          obj = (case objectToTime of TName s \<Rightarrow> TUndefined | _ \<Rightarrow> objectToTime);
          o3 = o2\<lparr>opt_table := (if loose_undefined (opt_table o2) then JBool True
                                 else opt_table o2)\<rparr>;
          n0 = (case opt_name o3 of None \<Rightarrow> [] | Some s \<Rightarrow> s);
          this = \<lparr>startTime = 0, stopTime = 0, running = False, currentName = n0,
                  prevName = n0, initName = n0, p_group = ''global'', p_active = True,
                  results = [],
                  performance = (if opt_performance o3 = JBool False then False
                                 else win_performance w),
                  useTable = (console_table w \<and> truthy (opt_table o3) \<and> \<not> ua_msie_edge w)\<rparr>
      in case group_fn (opt_group o3) this w of
           (Inl err, p1, w1) \<Rightarrow> (Inl err, w1)
         | (Inr g, p1, w1) \<Rightarrow>
             (case active (opt_active o3) p1 w1 of
                (Inl err, p2) \<Rightarrow> (Inl err, w1)
              | (Inr v, p2) \<Rightarrow> (initPrototype obj p2 w1, w1))))"

text \<open>
  Calling what the constructor returned. The wrapper brackets the function with \<^verbatim>\<open>start\<close>
  and \<^verbatim>\<open>stop('results')\<close>; the function itself does not touch the profiler; the instance
  is not a function.
\<close>

definition invoke ::
  "pret \<Rightarrow> jsval list \<Rightarrow> profiler \<Rightarrow> pworld \<Rightarrow> (error + jsval) \<times> profiler \<times> pworld" where
  "invoke r args p w =
     (case r of
        Wrapper f \<Rightarrow>
          (let (p1, w1) = start None p w;
               retVal = fn_apply f args;
               (p2, w2) = stop (JStr ''results'') p1 w1
           in (Inr retVal, p2, w2))
      | Original f \<Rightarrow> (Inr (fn_apply f args), p, w)
      | Instance \<Rightarrow> (Inl TypeError, p, w))"

text \<open>
  \<^verbatim>\<open>Profiler.groups\<close> as the script sets it, \<^verbatim>\<open>{global: true}\<close>, inheriting the functions of
  \<^verbatim>\<open>Object.prototype\<close>, on a platform with \<^verbatim>\<open>window.performance\<close> and \<^verbatim>\<open>console.table\<close>,
  and time sources whose \<open>n\<close>-th reading is \<open>n\<close>.
\<close>

definition initial_pworld :: pworld where
  "initial_pworld =
     \<lparr>groups = [''global'' \<mapsto> JBool True],
      groups_proto = map_of
        [(''constructor'', JObj 100), (''toString'', JObj 101), (''toLocaleString'', JObj 102),
         (''valueOf'', JObj 103), (''hasOwnProperty'', JObj 104), (''isPrototypeOf'', JObj 105),
         (''propertyIsEnumerable'', JObj 106), (''__proto__'', JObj 107)],
      clock_perf = (\<lambda>n. of_nat n), clock_date = (\<lambda>n. of_nat n), ticks = 0,
      win_performance = True, console_table = True, ua_msie_edge = False, pout = []\<rparr>"

text \<open>The instance that \<^verbatim>\<open>new Profiler('timer')\<close> builds there.\<close>

definition example_profiler :: profiler where
  "example_profiler = \<lparr>startTime = 0, stopTime = 0, running = False, currentName = ''timer'',
     prevName = ''timer'', initName = ''timer'', p_group = ''global'', p_active = True,
     results = [], performance = True, useTable = True\<rparr>"

text \<open>The same instance with three recorded samples of 10, 20 and 30 milliseconds.\<close>

definition report_example :: profiler where
  "report_example = example_profiler\<lparr>results :=
     [\<lparr>res_name = ''a'', res_time = 10\<rparr>, \<lparr>res_name = ''b'', res_time = 20\<rparr>,
      \<lparr>res_name = ''b'', res_time = 30\<rparr>]\<rparr>"

text \<open>\<^verbatim>\<open>Profiler.groups.global = false\<close>, and the options \<^verbatim>\<open>{group: "profileGroup1"}\<close>.\<close>

definition global_off_world :: pworld where
  "global_off_world = initial_pworld\<lparr>groups := [''global'' \<mapsto> JBool False]\<rparr>"

definition group_options :: poptions where
  "group_options = \<lparr>opt_name = None, opt_group = JStr ''profileGroup1'',
     opt_active = JUndefined, opt_performance = JUndefined, opt_table = JUndefined\<rparr>"


text \<open>\<^verbatim>\<open>Profiler.groups.profileGroup1 = false\<close> beside \<^verbatim>\<open>global: true\<close>.\<close>

definition group_off_world :: pworld where
  "group_off_world =
     initial_pworld\<lparr>groups := [''global'' \<mapsto> JBool True, ''profileGroup1'' \<mapsto> JBool False]\<rparr>"

text \<open>
  A function \<^verbatim>\<open>compute\<close>, the options \<^verbatim>\<open>{group: "profileGroup1", active: false}\<close>, and the
  instance the constructor builds from them.
\<close>

definition example_fn :: fn where
  "example_fn = \<lparr>fn_name = ''compute'', fn_prototype = Some [],
     fn_text = ''function compute(){}'', fn_apply = (\<lambda>args. JNum 7)\<rparr>"

text \<open>The anonymous arrow function \<^verbatim>\<open>() => {}\<close>: no name, no prototype.\<close>

definition arrow_fn :: fn where
  "arrow_fn = \<lparr>fn_name = [], fn_prototype = None, fn_text = ''() => {}'',
     fn_apply = (\<lambda>args. JUndefined)\<rparr>"

definition inactive_options :: poptions where
  "inactive_options = \<lparr>opt_name = None, opt_group = JStr ''profileGroup1'',
     opt_active = JBool False, opt_performance = JUndefined, opt_table = JUndefined\<rparr>"

definition inactive_profiler :: profiler where
  "inactive_profiler = \<lparr>startTime = 0, stopTime = 0, running = False, currentName = ''compute'',
     prevName = ''compute'', initName = ''compute'', p_group = ''profileGroup1'',
     p_active = False, results = [], performance = True, useTable = True\<rparr>"

section \<open>Lemmas on the registry\<close>

lemma map_of_state:
  "map_of (state objs w) k =
     map_option (\<lambda>a. if truthy (debug_flag (heap w a)) then ''on'' else ''off'') (map_of objs k)"
  by (induction objs) (auto simp: state_def)

lemma heap_set_flag:
  "heap (set_flag st a w) b = (if b = a then (heap w a)\<lparr>debug_flag := st\<rparr> else heap w b)"
  by (simp add: set_flag_def)

lemma js_slice_past_end: "int (length xs) \<le> b \<Longrightarrow> js_slice b xs = []"
  by (simp add: js_slice_def Let_def)

section \<open>Lemmas on numbers and printing\<close>

lemma dec_nat_small: "n < 10 \<Longrightarrow> dec_nat n = [digit_char n]"
  by (simp add: dec_nat.simps)

lemma dec_nat_large: "10 \<le> n \<Longrightarrow> dec_nat n = dec_nat (n div 10) @ [digit_char n]"
  by (subst dec_nat.simps) simp

lemma floor_numeral_quotient: "\<lfloor>numeral a / numeral b :: rat\<rfloor> = numeral a div numeral b"
  using floor_divide_of_int_eq [of "numeral a" "numeral b", where ?'a = rat] by simp

lemma ceiling_numeral_quotient:
  "\<lceil>numeral a / numeral b :: rat\<rceil> = - ((- numeral a) div numeral b)"
  using floor_divide_of_int_eq [of "- numeral a" "numeral b", where ?'a = rat]
  by (simp add: ceiling_def)

lemma bit_length_0: "bit_length 0 = 0"
  by (simp add: bit_length.simps)

lemma bit_length_pos: "0 < n \<Longrightarrow> bit_length n = Suc (bit_length (n div 2))"
  by (subst bit_length.simps) simp

lemmas eval_fixed = toFixed_def dec_nat_small dec_nat_large digit_char_def floor_numeral_quotient Let_def

lemmas eval_double = round_double_def double_value_def round_half_even_def ilog2_def pow2_def
  bit_length_0 bit_length_pos floor_numeral_quotient ceiling_numeral_quotient Let_def




lemma bit_length_bounds:
  "0 < n \<Longrightarrow> 2 ^ (bit_length n - 1) \<le> n \<and> n < 2 ^ bit_length n"
proof (induction n rule: bit_length.induct)
  case (1 n)
  show ?case
  proof (cases "n div 2 = 0")
    case True
    with "1.prems" have "n = 1" by (simp add: div_eq_0_iff) 
    then show ?thesis by (simp add: bit_length_pos bit_length_0)
  next
    case False
    then have h: "0 < n div 2" by simp
    with "1.IH" "1.prems" have ih: "2 ^ (bit_length (n div 2) - 1) \<le> n div 2"
      "n div 2 < 2 ^ bit_length (n div 2)" by simp_all
    have bl: "bit_length n = Suc (bit_length (n div 2))"
      using "1.prems" by (rule bit_length_pos)
    have pos: "0 < bit_length (n div 2)"
      using h by (simp add: bit_length_pos)
    then have "(2::nat) ^ bit_length (n div 2) = 2 * 2 ^ (bit_length (n div 2) - 1)"
      by (cases "bit_length (n div 2)") simp_all
    with ih show ?thesis
      unfolding bl by simp linarith
  qed
qed

lemma pow2_bracket:
  fixes n :: nat and x :: rat
  assumes "0 < n" and "rat_of_nat n \<le> x" and "x < rat_of_nat n + 1"
  shows "2 ^ (bit_length n - 1) \<le> x \<and> x < 2 ^ bit_length n"
proof -
  from bit_length_bounds [OF assms(1)]
  have b1: "2 ^ (bit_length n - 1) \<le> n" and b2: "n < 2 ^ bit_length n" by simp_all
  have "(2::rat) ^ (bit_length n - 1) = rat_of_nat (2 ^ (bit_length n - 1))" by simp
  also have "\<dots> \<le> rat_of_nat n" by (intro of_nat_mono b1)
  finally have l: "(2::rat) ^ (bit_length n - 1) \<le> x" using assms(2) by linarith
  from b2 have "Suc n \<le> 2 ^ bit_length n" by simp
  then have "rat_of_nat (Suc n) \<le> rat_of_nat (2 ^ bit_length n)"
    by (intro of_nat_mono)
  then have "rat_of_nat n + 1 \<le> 2 ^ bit_length n" by simp
  with assms(3) l show ?thesis by linarith
qed

lemma pow2_bracket_open:
  fixes n :: nat and x :: rat
  assumes "0 < n" and "rat_of_nat n < x" and "x \<le> rat_of_nat n + 1"
  shows "2 ^ (bit_length n - 1) < x \<and> x \<le> 2 ^ bit_length n"
proof -
  from bit_length_bounds [OF assms(1)]
  have b1: "2 ^ (bit_length n - 1) \<le> n" and b2: "n < 2 ^ bit_length n" by simp_all
  have "(2::rat) ^ (bit_length n - 1) = rat_of_nat (2 ^ (bit_length n - 1))" by simp
  also have "\<dots> \<le> rat_of_nat n" by (intro of_nat_mono b1)
  finally have l: "(2::rat) ^ (bit_length n - 1) < x" using assms(2) by linarith
  from b2 have "Suc n \<le> 2 ^ bit_length n" by simp
  then have "rat_of_nat (Suc n) \<le> rat_of_nat (2 ^ bit_length n)"
    by (intro of_nat_mono)
  then have "rat_of_nat n + 1 \<le> 2 ^ bit_length n" by simp
  with assms(3) l show ?thesis by linarith
qed

lemma ilog2_bounds:
  assumes "0 < a"
  shows "pow2 (ilog2 a) \<le> a \<and> a < pow2 (ilog2 a + 1)"
proof (cases "1 \<le> a")
  case True
  define n where "n = nat \<lfloor>a\<rfloor>"
  have f: "1 \<le> \<lfloor>a\<rfloor>" using True by simp
  then have n: "0 < n" by (simp add: n_def)
  have nf: "rat_of_nat n = rat_of_int \<lfloor>a\<rfloor>" using f by (simp add: n_def)
  have lo: "rat_of_nat n \<le> a" unfolding nf by (rule of_int_floor_le)
  have hi: "a < rat_of_nat n + 1" unfolding nf using floor_correct [of a] by simp
  from pow2_bracket [OF n lo hi]
  have l: "2 ^ (bit_length n - 1) \<le> a" and h: "a < 2 ^ bit_length n" by simp_all
  have pos: "0 < bit_length n" using n by (simp add: bit_length_pos)
  have e: "ilog2 a = int (bit_length n) - 1" using True by (simp add: ilog2_def n_def)
  have n1: "nat (int (bit_length n) - 1) = bit_length n - 1" by simp
  show ?thesis
    using l h pos by (simp add: e pow2_def n1)
next
  case False
  then have a1: "a < 1" by simp
  define r where "r = 1 / a"
  have r1: "1 < r" using assms a1 by (simp add: r_def)
  define m where "m = nat (\<lceil>r\<rceil> - 1)"
  have c2: "2 \<le> \<lceil>r\<rceil>" using r1 by (simp add: le_ceiling_iff)
  then have m: "0 < m" by (simp add: m_def)
  have mc: "rat_of_nat m = rat_of_int \<lceil>r\<rceil> - 1" using c2 by (simp add: m_def)
  have mlt: "rat_of_nat m < r" unfolding mc using ceiling_correct [of r] by linarith
  have mge: "r \<le> rat_of_nat m + 1" unfolding mc using le_of_int_ceiling [of r] by simp
  from pow2_bracket_open [OF m mlt mge]
  have l: "2 ^ (bit_length m - 1) < r" and h: "r \<le> 2 ^ bit_length m" by simp_all
  have pos: "0 < bit_length m" using m by (simp add: bit_length_pos)
  have e: "ilog2 a = - int (bit_length m)" using False by (simp add: ilog2_def m_def r_def)
  from h assms have lo: "1 / 2 ^ bit_length m \<le> a"
    by (simp add: r_def field_simps)
  from l assms have hi: "a < 1 / 2 ^ (bit_length m - 1)"
    by (simp add: r_def field_simps)
  show ?thesis
  proof (cases "bit_length m = 1")
    case True
    with lo a1 show ?thesis by (simp add: e pow2_def)
  next
    case False
    with pos have g: "2 \<le> bit_length m" by simp
    then have n1: "nat (int (bit_length m) - 1) = bit_length m - 1" by simp
    from g lo hi show ?thesis by (simp add: e pow2_def n1)
  qed
qed

section \<open>Lemmas on the profiler\<close>

lemma active_get_frame:
  "active_get (p\<lparr>stopTime := a\<rparr>) w = active_get p w"
  "active_get (p\<lparr>startTime := a\<rparr>) w = active_get p w"
  "active_get (p\<lparr>running := b\<rparr>) w = active_get p w"
  "active_get (p\<lparr>currentName := c\<rparr>) w = active_get p w"
  "active_get (p\<lparr>prevName := c\<rparr>) w = active_get p w"
  "active_get (p\<lparr>initName := c\<rparr>) w = active_get p w"
  "active_get (p\<lparr>results := rs\<rparr>) w = active_get p w"
  "active_get p (w\<lparr>ticks := n\<rparr>) = active_get p w"
  "active_get p (w\<lparr>pout := es\<rparr>) = active_get p w"
  by (simp_all add: active_get_def group_lookup_def split: option.splits)





lemma initPrototype_inactive:
  assumes "initPrototype (TFn f) p w = Inr (r, p')" and "\<not> truthy (active_get p' w)"
  shows "r = Original f"
  using assms
  by (auto simp: initPrototype_def Let_def active_get_frame split: if_splits sum.splits)

lemma group_fn_completes:
  assumes "v = JUndefined \<or> typeof v = ''string''"
  shows "\<exists>g p1 w1. group_fn v p w = (Inr g, p1, w1) \<and> currentName p1 = currentName p"
  using assms
  by (cases v) (auto simp: group_fn_def Let_def group_lookup_def loose_undefined_def)

lemma active_completes:
  assumes "v = JUndefined \<or> typeof v = ''boolean''"
  shows "\<exists>x p1. active v p w = (Inr x, p1) \<and> currentName p1 = currentName p"
  using assms
  by (cases v) (auto simp: active_def Let_def)

lemma initPrototype_completes:
  assumes "currentName p \<noteq> [] \<or> fn_name f \<noteq> [] \<or> fn_prototype f \<noteq> None"
  shows "\<exists>r p'. initPrototype (TFn f) p w = Inr (r, p')"
  using assms
  by (auto simp: initPrototype_def fn_display_name_def Let_def split: option.splits)

lemma Profiler_completes:
  assumes "opt_group os = JUndefined \<or> typeof (opt_group os) = ''string''"
    and "opt_active os = JUndefined \<or> typeof (opt_active os) = ''boolean''"
    and "(\<exists>n. opt_name os = Some n \<and> n \<noteq> []) \<or> fn_name f \<noteq> [] \<or> fn_prototype f \<noteq> None"
  shows "\<exists>r p w'. Profiler (TFn f) (NOpts os) None w = (Inr (r, p), w')"
proof -
  let ?n0 = "case opt_name os of None \<Rightarrow> [] | Some s \<Rightarrow> s"
  let ?this = "\<lparr>startTime = 0, stopTime = 0, running = False, currentName = ?n0,
                  prevName = ?n0, initName = ?n0, p_group = ''global'', p_active = True,
                  results = [],
                  performance = (if opt_performance os = JBool False then False
                                 else win_performance w),
                  useTable = (console_table w \<and> truthy (if loose_undefined (opt_table os)
                     then JBool True else opt_table os) \<and> \<not> ua_msie_edge w)\<rparr>"
  from group_fn_completes [OF assms(1), of ?this w]
  obtain g p1 w1 where g: "group_fn (opt_group os) ?this w = (Inr g, p1, w1)"
    and n1: "currentName p1 = ?n0" by auto
  from active_completes [OF assms(2), of p1 w1]
  obtain x p2 where a: "active (opt_active os) p1 w1 = (Inr x, p2)"
    and n2: "currentName p2 = ?n0" using n1 by auto
  have "currentName p2 \<noteq> [] \<or> fn_name f \<noteq> [] \<or> fn_prototype f \<noteq> None"
    using assms(3) n2 by auto
  from initPrototype_completes [OF this, of w1]
  obtain r p' where i: "initPrototype (TFn f) p2 w1 = Inr (r, p')" by auto
  have "Profiler (TFn f) (NOpts os) None w = (Inr (r, p'), w1)"
    by (simp add: Profiler_def Let_def g a i)
  then show ?thesis by blast
qed

lemma printResults_out:
  "snd (printResults nm p w) =
     w\<lparr>pout := pout w @
       (if useTable p
        then [InfoHeader (''PROFILER RESULTS FOR: '' @ initName p @ '' ''), Table (report_rows p)]
        else [LogBlock (initName p) (report_rows p)])\<rparr>"
  by (simp add: printResults_def report_rows_def Let_def)

lemma seconds_of_samples:
  "num_div (Fin 10) (Fin 1000) = Fin (5764607523034235 / 576460752303423488)"
  "num_div (Fin 20) (Fin 1000) = Fin (5764607523034235 / 288230376151711744)"
  "num_div (Fin 30) (Fin 1000) = Fin (1080863910568919 / 36028797018963968)"
  by (simp_all add: eval_double)


lemma sums_of_samples:
  "num_add (Fin 0) (Fin 10) = Fin 10"
  "num_add (Fin 10) (Fin 20) = Fin 30"
  "num_add (Fin 30) (Fin 30) = Fin 60"
  "num_div (Fin 60) (Fin 3) = Fin 20"
  by (simp_all add: eval_double)

lemma seconds_total:
  "num_add (Fin 0) (Fin (5764607523034235 / 576460752303423488))
     = Fin (5764607523034235 / 576460752303423488)"
  "num_add (Fin (5764607523034235 / 576460752303423488))
       (Fin (5764607523034235 / 288230376151711744))
     = Fin (1080863910568919 / 36028797018963968)"
  "num_add (Fin (1080863910568919 / 36028797018963968))
       (Fin (1080863910568919 / 36028797018963968))
     = Fin (1080863910568919 / 18014398509481984)"
  "num_div (Fin (1080863910568919 / 18014398509481984)) (Fin 3)
     = Fin (5764607523034235 / 288230376151711744)"
  by (simp_all add: eval_double)

lemma rendered:
  "toFixed 10 2 = ''10.00''" "toFixed 20 2 = ''20.00''" "toFixed 30 2 = ''30.00''"
  "toFixed 60 2 = ''60.00''"
  "toFixed (1 / 100) 6 = ''0.010000''" "toFixed (1 / 50) 6 = ''0.020000''"
  "toFixed (3 / 100) 6 = ''0.030000''" "toFixed (3 / 50) 6 = ''0.060000''"
  "toFixed (5764607523034235 / 576460752303423488) 6 = ''0.010000''"
  "toFixed (5764607523034235 / 288230376151711744) 6 = ''0.020000''"
  "toFixed (1080863910568919 / 36028797018963968) 6 = ''0.030000''"
  "toFixed (1080863910568919 / 18014398509481984) 6 = ''0.060000''"
  by (simp_all add: eval_fixed)

section \<open>The global flag\<close>

text \<open>
  C3. \<^verbatim>\<open>global(state)\<close> with a truthy state stores it as the process-wide flag; with no
  argument (\<^verbatim>\<open>undefined\<close>) or any falsy argument, \<^verbatim>\<open>false\<close> among them, the flag keeps its
  value and that value is returned: \<^verbatim>\<open>global(false)\<close> reads, it does not write.
\<close>

theorem global_sets_only_on_truthy:
  "(truthy st \<longrightarrow> global st w = (JUndefined, w\<lparr>globalDebug := st\<rparr>))
   \<and> (\<not> truthy st \<longrightarrow> global st w = (globalDebug w, w))
   \<and> global JUndefined w = (globalDebug w, w)
   \<and> global (JBool False) w = (globalDebug w, w)"
  by (simp add: global_def)

theorem global_sets_only_on_truthy_witness:
  "truthy (JBool True)
   \<and> global (JBool True) initial_dworld = (JUndefined, initial_dworld\<lparr>globalDebug := JBool True\<rparr>)
   \<and> \<not> truthy (JNum 0)
   \<and> global (JNum 0) (initial_dworld\<lparr>globalDebug := JBool True\<rparr>)
       = (JBool True, initial_dworld\<lparr>globalDebug := JBool True\<rparr>)"
  using global_sets_only_on_truthy [of "JBool True" initial_dworld]
    global_sets_only_on_truthy [of "JNum 0" "initial_dworld\<lparr>globalDebug := JBool True\<rparr>"]
  by (simp add: initial_dworld_def)

section \<open>Gating of the debug entry point\<close>

text \<open>
  C1, evaluated on the code. \<^verbatim>\<open>new Debugger({a: objA}, true)\<close> while the global flag is
  \<^verbatim>\<open>false\<close>, then \<^verbatim>\<open>global(true)\<close>: both flags are true when \<^verbatim>\<open>objA.debug('hello')\<close> runs, and
  nothing is written, because \<^verbatim>\<open>init\<close> stored the empty function. The other way round, an
  object registered while both flags are true still writes after \<^verbatim>\<open>off()\<close>.
\<close>

theorem debug_gate_fixed_at_init:
  "(let w1 = init (JBool True) one_object initial_dworld;
        w2 = snd (global (JBool True) w1)
    in truthy (globalDebug w2) \<and> truthy (debug_flag (heap w2 0))
       \<and> call_debug 0 [JStr ''hello''] w2 = Inr w2 \<and> out w2 = [])
   \<and> (let w1 = init (JBool True) one_object (initial_dworld\<lparr>globalDebug := JBool True\<rparr>);
          w2 = snd (off JUndefined one_object w1)
      in \<not> truthy (debug_flag (heap w2 0))
         \<and> map_sum id out (call_debug 0 [JStr ''hello''] w2)
             = Inr [ConsoleCall ''log'' [] [JStr ''hello'']])"
  by (simp add: init_def setState_def off_def global_def attach_def debug_def call_debug_def
      set_flag_def state_def one_object_def initial_dworld_def fresh_obj_def js_or_def Let_def)

section \<open>Per-key switches\<close>

text \<open>
  C7, as the code has it. The flag lives on the object, so \<^verbatim>\<open>off(key)\<close> with a registered,
  truthy key sets the flag of that key's object to \<^verbatim>\<open>false\<close> and changes no other object;
  every registered key bound to another object keeps its flag and its \<^verbatim>\<open>'on'\<close>/\<^verbatim>\<open>'off'\<close> in
  the mapping returned, which is \<^verbatim>\<open>state()\<close> afterwards and reports \<^verbatim>\<open>'off'\<close> for the key.
\<close>

theorem off_key_isolation:
  assumes "truthy key" and "map_of objs (js_toString key) = Some a"
  shows "fst (off key objs w) = Inr (state objs (snd (off key objs w)))
    \<and> debug_flag (heap (snd (off key objs w)) a) = JBool False
    \<and> (\<forall>b. b \<noteq> a \<longrightarrow> heap (snd (off key objs w)) b = heap w b)
    \<and> (\<forall>st. fst (off key objs w) = Inr st \<longrightarrow>
          map_of st (js_toString key) = Some ''off''
          \<and> (\<forall>k b. map_of objs k = Some b \<and> b \<noteq> a \<longrightarrow> map_of st k = map_of (state objs w) k))"
  using assms
  by (auto simp: off_def setState_def lookup_object_def Let_def map_of_state heap_set_flag)

theorem off_key_isolation_witness:
  "truthy (JStr ''model'') \<and> map_of two_objects (js_toString (JStr ''model'')) = Some 0
   \<and> fst (off (JStr ''model'') two_objects (init (JBool True) two_objects initial_dworld))
       = Inr [(''model'', ''off''), (''view'', ''on'')]"
proof -
  let ?w = "init (JBool True) two_objects initial_dworld"
  have k: "truthy (JStr ''model'')" by simp
  have r: "map_of two_objects (js_toString (JStr ''model'')) = Some 0"
    by (simp add: two_objects_def)
  have s: "state two_objects (snd (off (JStr ''model'') two_objects ?w))
             = [(''model'', ''off''), (''view'', ''on'')]"
    by (simp add: init_def setState_def lookup_object_def off_def attach_def debug_def
        set_flag_def state_def two_objects_def initial_dworld_def fresh_obj_def js_or_def Let_def)
  from off_key_isolation [OF k r, of ?w] s k r show ?thesis by simp
qed

text \<open>
  With \<^verbatim>\<open>{model: x, view: x}\<close> registered on, \<^verbatim>\<open>off('model')\<close> turns \<^verbatim>\<open>view\<close> off as well.
\<close>

theorem off_key_isolation_counterexample:
  "map_of (state aliased_objects (init (JBool True) aliased_objects initial_dworld)) ''view''
     = Some ''on''
   \<and> fst (off (JStr ''model'') aliased_objects (init (JBool True) aliased_objects initial_dworld))
       = Inr [(''model'', ''off''), (''view'', ''off'')]
   \<and> map_of (state aliased_objects (snd (off (JStr ''model'') aliased_objects
         (init (JBool True) aliased_objects initial_dworld)))) ''view''
       \<noteq> map_of (state aliased_objects (init (JBool True) aliased_objects initial_dworld)) ''view''"
  by (simp add: init_def setState_def lookup_object_def off_def attach_def debug_def
      set_flag_def state_def aliased_objects_def initial_dworld_def fresh_obj_def js_or_def Let_def)

text \<open>
  C9, as the code has it. A truthy key for which \<^verbatim>\<open>this._objects[key]\<close> is \<^verbatim>\<open>undefined\<close>,
  one that is neither registered nor inherited by \<^verbatim>\<open>this._objects\<close>, makes \<^verbatim>\<open>setState\<close>,
  \<^verbatim>\<open>on\<close> and \<^verbatim>\<open>off\<close> throw a TypeError, and nothing has been assigned: the closure and
  every object are as before.
\<close>

theorem setState_unregistered_key_throws:
  assumes "truthy key"
    and "map_of objs (js_toString key) = None"
    and "map_of (objects_proto w) (js_toString key) = None"
  shows "setState st key objs w = (Inl TypeError, w)
    \<and> on key objs w = (Inl TypeError, w)
    \<and> off key objs w = (Inl TypeError, w)"
  using assms by (simp add: setState_def lookup_object_def on_def off_def)

theorem setState_unregistered_key_throws_witness:
  "truthy (JStr ''ctrl'') \<and> map_of two_objects (js_toString (JStr ''ctrl'')) = None
   \<and> map_of (objects_proto initial_dworld) (js_toString (JStr ''ctrl'')) = None
   \<and> off (JStr ''ctrl'') two_objects initial_dworld = (Inl TypeError, initial_dworld)"
proof -
  have k: "truthy (JStr ''ctrl'')" by simp
  have r: "map_of two_objects (js_toString (JStr ''ctrl'')) = None"
    by (simp add: two_objects_def)
  have i: "map_of (objects_proto initial_dworld) (js_toString (JStr ''ctrl'')) = None"
    by (simp add: initial_dworld_def)
  from setState_unregistered_key_throws [OF k r i] k r i show ?thesis by simp
qed

text \<open>
  Neither the empty string nor \<^verbatim>\<open>'toString'\<close> is a registered key of \<^verbatim>\<open>{a: objA}\<close>, and
  neither \<^verbatim>\<open>off('')\<close> nor \<^verbatim>\<open>off('toString')\<close> throws. The empty key is falsy, so every
  object is switched off. \<^verbatim>\<open>this._objects['toString']\<close> is the function that the object
  literal inherits, and the flag is written on it.
\<close>

theorem setState_unregistered_key_counterexample:
  "map_of one_object (js_toString (JStr [])) = None
   \<and> fst (off (JStr []) one_object (init (JBool True) one_object initial_dworld))
       = Inr [(''a'', ''off'')]
   \<and> fst (off (JStr []) one_object (init (JBool True) one_object initial_dworld))
       \<noteq> Inl TypeError
   \<and> debug_flag (heap (init (JBool True) one_object initial_dworld) 0) = JBool True
   \<and> debug_flag (heap (snd (off (JStr []) one_object
         (init (JBool True) one_object initial_dworld))) 0) = JBool False
   \<and> map_of one_object (js_toString (JStr ''toString'')) = None
   \<and> fst (off (JStr ''toString'') one_object (init (JBool True) one_object initial_dworld))
       = Inr [(''a'', ''on'')]
   \<and> debug_flag (heap (snd (off (JStr ''toString'') one_object
         (init (JBool True) one_object initial_dworld))) 101) = JBool False"
  by (simp add: init_def setState_def lookup_object_def off_def attach_def debug_def
      set_flag_def state_def one_object_def initial_dworld_def fresh_obj_def js_or_def Let_def)

section \<open>Call-site resolution without a trace\<close>

text \<open>
  C5, as the code has it. When the trace is empty (\<^verbatim>\<open>e.stack\<close> absent or \<^verbatim>\<open>""\<close>), the error
  object carries no position, the options give no \<^verbatim>\<open>url\<close> or \<^verbatim>\<open>line\<close> and the offset is
  absent or at least \<open>-1\<close>, the constructor does not throw, and \<^verbatim>\<open>url\<close>, \<^verbatim>\<open>file\<close> and
  \<^verbatim>\<open>line\<close> are \<^verbatim>\<open>"?"\<close>; the column is the empty string and the stack the empty array, and
  the location prints as \<^verbatim>\<open>"(?:?:)"\<close>.
\<close>

theorem LogLocation_empty_trace:
  assumes "e_stack e = None \<or> e_stack e = Some []"
    and "\<not> truthy (e_url e)" and "\<not> truthy (e_line e)"
    and "\<not> truthy (e_lineNumber e)" and "\<not> truthy (e_column e)"
    and "\<not> truthy (o_url options)" and "\<not> truthy (o_line options)"
    and "o_offset options = None \<or> (\<exists>k. o_offset options = Some k \<and> - 1 \<le> k)"
  shows "LogLocation options e =
     Inr \<lparr>stack = [], url = JStr ''?'', loc = ''(?:?:)'', path = [], file = ''?'',
          line = JStr ''?'', col = JStr [], str = ''(?:?:)''\<rparr>"
proof -
  obtain k where k: "(case o_offset options of None \<Rightarrow> 0 | Some k \<Rightarrow> k) = k" and k1: "- 1 \<le> k"
    using assms(8) by auto
  have sp: "js_split CHR 0x0A (case e_stack e of None \<Rightarrow> [] | Some s \<Rightarrow> s) = [[]]"
    using assms(1) by (auto simp: js_split_def)
  have s1: "js_slice (4 + k) [[]::string] = []"
    using k1 by (intro js_slice_past_end) simp
  have s2: "js_slice (2 + k) [''getStack''] = []"
    using k1 by (intro js_slice_past_end) simp
  have stk: "getStack e (o_offset options) = []"
    by (simp add: getStack_def baseIndex_def k sp s1 s2 callee_names_def Let_def)
  have lp: "locFromUrl ''?'' = \<lparr>l_line = JUndefined, l_col = JUndefined, l_file = ''?'',
      l_path = []\<rparr>"
    by (simp add: locFromUrl_def js_split_def str_at_def Let_def)
  show ?thesis
    using assms(2-7)
    by (simp add: LogLocation_def stk lp str_at_def js_or_def join_elem_def Let_def)
qed

theorem LogLocation_empty_trace_witness:
  "LogLocation no_options empty_error =
     Inr \<lparr>stack = [], url = JStr ''?'', loc = ''(?:?:)'', path = [], file = ''?'',
          line = JStr ''?'', col = JStr [], str = ''(?:?:)''\<rparr>"
  using LogLocation_empty_trace [of empty_error no_options]
  by (simp add: empty_error_def no_options_def)

text \<open>On that input the column is not \<^verbatim>\<open>"?"\<close>, and the stack holds no \<^verbatim>\<open>"?"\<close> either.\<close>

theorem LogLocation_empty_trace_counterexample:
  "map_sum id col (LogLocation no_options empty_error) = Inr (JStr [])
   \<and> map_sum id col (LogLocation no_options empty_error) \<noteq> Inr (JStr ''?'')
   \<and> map_sum id stack (LogLocation no_options empty_error) = Inr []"
  by (simp add: LogLocation_def getStack_def locFromUrl_def baseIndex_def js_slice_def
      js_split_def callee_names_def str_at_def js_or_def join_elem_def no_options_def
      empty_error_def Let_def)

section \<open>Group gating of the profiler\<close>

text \<open>
  C2, evaluated on the code. With \<^verbatim>\<open>Profiler.groups.global = false\<close>,
  \<^verbatim>\<open>new Profiler('site timer', {group: "profileGroup1"})\<close> declares its group as \<^verbatim>\<open>true\<close>, and
  \<^verbatim>\<open>start()\<close> then \<^verbatim>\<open>stop()\<close> records a sample: \<^verbatim>\<open>active\<close> reads the instance's own group
  only, never the \<^verbatim>\<open>global\<close> entry.
\<close>

theorem custom_group_ignores_global:
  "(case Profiler (TName ''site timer'') (NOpts group_options) None global_off_world of
      (Inr (r, p), w) \<Rightarrow>
        (let (p1, w1) = start None p w; (p2, w2) = stop JUndefined p1 w1
         in r = Instance \<and> p_active p \<and> p_group p = ''profileGroup1''
            \<and> group_lookup w2 ''global'' = JBool False
            \<and> results p2 = [\<lparr>res_name = ''site timer'', res_time = 1\<rparr>])
    | (Inl e, w) \<Rightarrow> False)"
proof -
  have d: "double_value 1 = 1"
    by (simp add: eval_double)
  show ?thesis
    by (simp add: Profiler_def group_fn_def active_def initPrototype_def active_get_def
      group_lookup_def loose_undefined_def start_def stop_def currentTime_def clock_of_def
      name_or_def group_options_def global_off_world_def initial_pworld_def d Let_def)
qed


section \<open>Timing round trip\<close>




section \<open>Configuration errors of the profiler\<close>

text \<open>
  C6, as the code has it. \<^verbatim>\<open>group(v)\<close> with a \<open>v\<close> that is given and is not a string
  throws, and so does \<^verbatim>\<open>active(v)\<close> with a \<open>v\<close> that is given and is not a boolean; the
  instance is left as it was, and the constructor passes either error on. \<^verbatim>\<open>group(g)\<close> with
  a string for which \<^verbatim>\<open>Profiler.groups[g]\<close> reads as \<^verbatim>\<open>undefined\<close> or \<^verbatim>\<open>null\<close>, a name that
  is neither an entry of the registry nor inherited by it, does not throw: it enters \<open>g\<close> as
  \<^verbatim>\<open>true\<close> and makes it the group of the instance. With a string that reads as anything
  else it does not throw either, and the entry is the value read.
\<close>

theorem profiler_configuration_errors:
  "(overide \<noteq> JUndefined \<and> typeof overide \<noteq> ''string'' \<longrightarrow>
      fst (group_fn overide p w) = Inl GroupNotString
      \<and> fst (snd (group_fn overide p w)) = p
      \<and> fst (Profiler t (NOpts (os\<lparr>opt_group := overide\<rparr>)) None w) = Inl GroupNotString)
   \<and> (overide \<noteq> JUndefined \<and> typeof overide \<noteq> ''boolean'' \<longrightarrow>
        active overide p w = (Inl ActiveNotBoolean, p)
        \<and> (opt_group os = JUndefined \<or> typeof (opt_group os) = ''string'' \<longrightarrow>
             fst (Profiler t (NOpts (os\<lparr>opt_active := overide\<rparr>)) None w) = Inl ActiveNotBoolean))
   \<and> (loose_undefined (group_lookup w g) \<longrightarrow>
        group_fn (JStr g) p w
          = (Inr g, p\<lparr>p_group := g\<rparr>, w\<lparr>groups := (groups w)(g \<mapsto> JBool True)\<rparr>))
   \<and> (\<not> loose_undefined (group_lookup w g) \<longrightarrow>
        group_fn (JStr g) p w
          = (Inr g, p\<lparr>p_group := g\<rparr>, w\<lparr>groups := (groups w)(g \<mapsto> group_lookup w g)\<rparr>))"
  apply (intro conjI impI)
  subgoal by (simp add: group_fn_def Let_def)
  subgoal by (simp add: group_fn_def Let_def)
  subgoal by (simp add: Profiler_def group_fn_def Let_def split: target.splits)
  subgoal by (simp add: active_def)
  subgoal by (cases "opt_group os") (auto simp: Profiler_def group_fn_def active_def Let_def group_lookup_def loose_undefined_def split: target.splits)
  subgoal by (simp add: group_fn_def Let_def group_lookup_def loose_undefined_def)
  subgoal by (auto simp: group_fn_def Let_def group_lookup_def loose_undefined_def split: option.splits)
  done

theorem profiler_configuration_errors_witness:
  "fst (group_fn (JNum 5) example_profiler initial_pworld) = Inl GroupNotString
   \<and> active (JNum 5) example_profiler initial_pworld = (Inl ActiveNotBoolean, example_profiler)
   \<and> group_fn (JStr ''profileGroup1'') example_profiler initial_pworld
       = (Inr ''profileGroup1'', example_profiler\<lparr>p_group := ''profileGroup1''\<rparr>,
          initial_pworld\<lparr>groups := (groups initial_pworld)(''profileGroup1'' \<mapsto> JBool True)\<rparr>)
   \<and> group_fn (JStr ''global'') example_profiler initial_pworld
       = (Inr ''global'', example_profiler\<lparr>p_group := ''global''\<rparr>,
          initial_pworld\<lparr>groups := (groups initial_pworld)(''global'' \<mapsto> JBool True)\<rparr>)"
  using profiler_configuration_errors [of "JNum 5" example_profiler initial_pworld TUndefined
      group_options "''profileGroup1''"]
    profiler_configuration_errors [of "JNum 5" example_profiler initial_pworld TUndefined
      group_options "''global''"]
  by (simp add: initial_pworld_def loose_undefined_def group_options_def group_lookup_def)

text \<open>
  \<^verbatim>\<open>'toString'\<close> is no entry of the registry \<^verbatim>\<open>{global: true}\<close>, and \<^verbatim>\<open>group('toString')\<close>
  does not enter it as \<^verbatim>\<open>true\<close>: the registry is a plain object, \<^verbatim>\<open>Profiler.groups['toString']\<close>
  reads as the function it inherits, and that function is what the entry holds afterwards.
\<close>

theorem profiler_configuration_errors_counterexample:
  "groups initial_pworld ''toString'' = None
   \<and> fst (group_fn (JStr ''toString'') example_profiler initial_pworld) = Inr ''toString''
   \<and> groups (snd (snd (group_fn (JStr ''toString'') example_profiler initial_pworld))) ''toString''
       = Some (JObj 101)
   \<and> groups (snd (snd (group_fn (JStr ''toString'') example_profiler initial_pworld))) ''toString''
       \<noteq> Some (JBool True)"
  by (simp add: group_fn_def group_lookup_def loose_undefined_def initial_pworld_def Let_def)

section \<open>The aggregate report\<close>

text \<open>
  C8. With samples of 10, 20 and 30 milliseconds recorded, under any names, the report of
  \<^verbatim>\<open>printResults\<close> has the row \<^verbatim>\<open>total\<close> with \<^verbatim>\<open>60.00\<close> milliseconds and the row \<^verbatim>\<open>avrg\<close>
  with \<^verbatim>\<open>20.00\<close>, and one row for each sample. In every row of the report the seconds are
  the row's milliseconds value \<open>v\<close> divided by 1000 and printed with 6 decimals, and the
  milliseconds are \<open>v\<close> printed with 2. These rows are what \<^verbatim>\<open>printResults\<close> writes.
\<close>

theorem printResults_report:
  assumes "results p = [\<lparr>res_name = n1, res_time = 10\<rparr>, \<lparr>res_name = n2, res_time = 20\<rparr>,
                        \<lparr>res_name = n3, res_time = 30\<rparr>]"
  shows "report_rows p ''total'' = Some \<lparr>row_ms = ''60.00'', row_s = ''0.060000''\<rparr>
    \<and> report_rows p ''avrg'' = Some \<lparr>row_ms = ''20.00'', row_s = ''0.020000''\<rparr>
    \<and> report_rows p (''0'' @ shown_name n1 (prevName p))
        = Some \<lparr>row_ms = ''10.00'', row_s = ''0.010000''\<rparr>
    \<and> report_rows p (''1'' @ shown_name n2 (shown_name n1 (prevName p)))
        = Some \<lparr>row_ms = ''20.00'', row_s = ''0.020000''\<rparr>
    \<and> report_rows p (''2'' @ shown_name n3 (shown_name n2 (shown_name n1 (prevName p))))
        = Some \<lparr>row_ms = ''30.00'', row_s = ''0.030000''\<rparr>
    \<and> (\<forall>k r. report_rows p k = Some r \<longrightarrow>
          (\<exists>v \<in> {10, 20, 30, 60}.
             r = \<lparr>row_ms = toFixed v 2, row_s = toFixed (v / 1000) 6\<rparr>))
    \<and> snd (printResults nm p w) =
        w\<lparr>pout := pout w @
          (if useTable p
           then [InfoHeader (''PROFILER RESULTS FOR: '' @ initName p @ '' ''),
                 Table (report_rows p)]
           else [LogBlock (initName p) (report_rows p)])\<rparr>"
proof -
  let ?k1 = "''0'' @ shown_name n1 (prevName p)"
  let ?k2 = "''1'' @ shown_name n2 (shown_name n1 (prevName p))"
  let ?k3 = "''2'' @ shown_name n3 (shown_name n2 (shown_name n1 (prevName p)))"
  have d: "dec_nat 0 = ''0''" "dec_nat (Suc 0) = ''1''" "dec_nat (Suc (Suc 0)) = ''2''"
    by (simp_all add: dec_nat_small digit_char_def)
  have rows: "report_rows p =
      [?k1 \<mapsto> \<lparr>row_ms = ''10.00'', row_s = ''0.010000''\<rparr>,
       ?k2 \<mapsto> \<lparr>row_ms = ''20.00'', row_s = ''0.020000''\<rparr>,
       ?k3 \<mapsto> \<lparr>row_ms = ''30.00'', row_s = ''0.030000''\<rparr>,
       ''total'' \<mapsto> \<lparr>row_ms = ''60.00'', row_s = ''0.060000''\<rparr>,
       ''avrg'' \<mapsto> \<lparr>row_ms = ''20.00'', row_s = ''0.020000''\<rparr>]"
    by (simp add: report_rows_def final_rows_def assms add_row_def Let_def d
        seconds_of_samples sums_of_samples seconds_total rendered
        del: num_add.simps num_div.simps)
  have every: "\<exists>v \<in> {10, 20, 30, 60}.
      r = \<lparr>row_ms = toFixed v 2, row_s = toFixed (v / 1000) 6\<rparr>"
    if "report_rows p k = Some r" for k r
  proof -
    from that have "r = \<lparr>row_ms = ''10.00'', row_s = ''0.010000''\<rparr>
        \<or> r = \<lparr>row_ms = ''20.00'', row_s = ''0.020000''\<rparr>
        \<or> r = \<lparr>row_ms = ''30.00'', row_s = ''0.030000''\<rparr>
        \<or> r = \<lparr>row_ms = ''60.00'', row_s = ''0.060000''\<rparr>"
      unfolding rows by (auto split: if_splits)
    then show ?thesis
      by (auto simp: rendered)
  qed
  show ?thesis
    using every by (simp add: rows printResults_out [unfolded rows])
qed


theorem printResults_report_witness:
  "report_rows report_example ''total'' = Some \<lparr>row_ms = ''60.00'', row_s = ''0.060000''\<rparr>
   \<and> report_rows report_example ''avrg'' = Some \<lparr>row_ms = ''20.00'', row_s = ''0.020000''\<rparr>
   \<and> report_rows report_example ''0 a'' = Some \<lparr>row_ms = ''10.00'', row_s = ''0.010000''\<rparr>
   \<and> report_rows report_example ''1 b'' = Some \<lparr>row_ms = ''20.00'', row_s = ''0.020000''\<rparr>
   \<and> report_rows report_example ''2 b'' = Some \<lparr>row_ms = ''30.00'', row_s = ''0.030000''\<rparr>"
proof -
  have h: "results report_example =
      [\<lparr>res_name = ''a'', res_time = 10\<rparr>, \<lparr>res_name = ''b'', res_time = 20\<rparr>,
       \<lparr>res_name = ''b'', res_time = 30\<rparr>]"
    by (simp add: report_example_def example_profiler_def)
  have n: "shown_name ''a'' (prevName report_example) = '' a''"
    "shown_name ''b'' '' a'' = '' b''" "shown_name ''b'' '' b'' = '' b''"
    by (simp_all add: shown_name_def report_example_def example_profiler_def)
  from printResults_report [OF h, where nm = None and w = initial_pworld]
  show ?thesis
    by (simp add: n)
qed


section \<open>The decorator of an inactive profiler\<close>

text \<open>
  C10, as the code has it. When the constructor is given a function and completes, and the
  instance it has built is not active (its override is \<^verbatim>\<open>false\<close>, or its group's entry in
  the registry is falsy), it returns the function itself: no wrapper, no \<^verbatim>\<open>profiler\<close>
  property, and a call through what was returned gives the function's value and leaves the
  instance as it is, whatever the registry says by then. It completes whenever the
  \<^verbatim>\<open>group\<close> and \<^verbatim>\<open>active\<close> options are absent or of the right type and a name is at hand:
  a name option, the function's own name, or a prototype to read one from.
\<close>

theorem inactive_decorator_returns_original:
  "(Profiler (TFn f) nm options w = (Inr (r, p), w') \<and> \<not> truthy (active_get p w') \<longrightarrow>
      r = Original f \<and> \<not> has_profiler_property r
      \<and> (\<forall>args q w''. invoke r args q w'' = (Inr (fn_apply f args), q, w'')))
   \<and> ((opt_group os = JUndefined \<or> typeof (opt_group os) = ''string'')
       \<and> (opt_active os = JUndefined \<or> typeof (opt_active os) = ''boolean'')
       \<and> ((\<exists>n. opt_name os = Some n \<and> n \<noteq> []) \<or> fn_name f \<noteq> [] \<or> fn_prototype f \<noteq> None) \<longrightarrow>
       (\<exists>r p w'. Profiler (TFn f) (NOpts os) None w = (Inr (r, p), w')))"
proof (rule conjI; rule impI)
  assume h: "Profiler (TFn f) nm options w = (Inr (r, p), w') \<and> \<not> truthy (active_get p w')"
  then obtain p0 where "initPrototype (TFn f) p0 w' = Inr (r, p)"
    by (auto simp: Profiler_def Let_def split: if_splits prod.splits sum.splits)
  then have "r = Original f"
    using h by (auto dest: initPrototype_inactive)
  then show "r = Original f \<and> \<not> has_profiler_property r
      \<and> (\<forall>args q w''. invoke r args q w'' = (Inr (fn_apply f args), q, w''))"
    by (simp add: invoke_def)
next
  assume h: "(opt_group os = JUndefined \<or> typeof (opt_group os) = ''string'')
       \<and> (opt_active os = JUndefined \<or> typeof (opt_active os) = ''boolean'')
       \<and> ((\<exists>n. opt_name os = Some n \<and> n \<noteq> []) \<or> fn_name f \<noteq> [] \<or> fn_prototype f \<noteq> None)"
  then have "opt_group os = JUndefined \<or> typeof (opt_group os) = ''string''"
    and "opt_active os = JUndefined \<or> typeof (opt_active os) = ''boolean''"
    and "(\<exists>n. opt_name os = Some n \<and> n \<noteq> []) \<or> fn_name f \<noteq> [] \<or> fn_prototype f \<noteq> None"
    by blast+
  then show "\<exists>r p w'. Profiler (TFn f) (NOpts os) None w = (Inr (r, p), w')"
    by (rule Profiler_completes)
qed

theorem inactive_decorator_returns_original_witness:
  "Profiler (TFn example_fn) (NOpts inactive_options) None initial_pworld
     = (Inr (Original example_fn, inactive_profiler),
        initial_pworld\<lparr>groups := (groups initial_pworld)(''profileGroup1'' \<mapsto> JBool True)\<rparr>)
   \<and> invoke (Original example_fn) [] inactive_profiler initial_pworld
       = (Inr (JNum 7), inactive_profiler, initial_pworld)
   \<and> fst (Profiler (TFn example_fn) (NOpts group_options) None group_off_world)
       = Inr (Original example_fn, inactive_profiler\<lparr>p_active := True\<rparr>)"
proof -
  let ?w = "initial_pworld\<lparr>groups := (groups initial_pworld)(''profileGroup1'' \<mapsto> JBool True)\<rparr>"
  let ?q = "inactive_profiler\<lparr>p_active := True\<rparr>"
  have c: "Profiler (TFn example_fn) (NOpts inactive_options) None initial_pworld
     = (Inr (Original example_fn, inactive_profiler), ?w)"
    by (simp add: Profiler_def group_fn_def active_def initPrototype_def active_get_def
      group_lookup_def loose_undefined_def fn_display_name_def example_fn_def
      inactive_options_def inactive_profiler_def initial_pworld_def Let_def)
  have a: "\<not> truthy (active_get inactive_profiler ?w)"
    by (simp add: active_get_def inactive_profiler_def)
  obtain r where d: "Profiler (TFn example_fn) (NOpts group_options) None group_off_world
     = (Inr (r, ?q), group_off_world)"
    by (simp add: Profiler_def group_fn_def active_def initPrototype_def active_get_def
      group_lookup_def loose_undefined_def fn_display_name_def example_fn_def decorate_def
      group_options_def inactive_profiler_def group_off_world_def initial_pworld_def Let_def)
  have b: "\<not> truthy (active_get ?q group_off_world)"
    by (simp add: active_get_def group_lookup_def inactive_profiler_def group_off_world_def)
  from inactive_decorator_returns_original [where f = example_fn
      and nm = "NOpts inactive_options" and options = None and w = initial_pworld
      and r = "Original example_fn" and p = inactive_profiler and w' = ?w
      and os = inactive_options, THEN conjunct1, THEN mp, OF conjI [OF c a]]
  have i: "invoke (Original example_fn) [] inactive_profiler initial_pworld
       = (Inr (fn_apply example_fn []), inactive_profiler, initial_pworld)"
    by simp
  from inactive_decorator_returns_original [where f = example_fn
      and nm = "NOpts group_options" and options = None and w = group_off_world
      and r = r and p = ?q and w' = group_off_world
      and os = group_options, THEN conjunct1, THEN mp, OF conjI [OF d b]]
  have e: "r = Original example_fn"
    by simp
  from c i d e show ?thesis by (simp add: example_fn_def)
qed

text \<open>
  \<^verbatim>\<open>new Profiler(() => {}, {group: "profileGroup1", active: false})\<close>: the override is
  \<^verbatim>\<open>false\<close>, no name is given, and the arrow function has neither a name nor a prototype,
  so \<^verbatim>\<open>_initPrototype\<close> throws while it reads \<^verbatim>\<open>objectToTime.prototype.name\<close>: the
  constructor returns nothing.
\<close>

theorem inactive_decorator_returns_original_counterexample:
  "opt_active inactive_options = JBool False
   \<and> opt_name inactive_options = None
   \<and> Profiler (TFn arrow_fn) (NOpts inactive_options) None initial_pworld
       = (Inl TypeError,
          initial_pworld\<lparr>groups := (groups initial_pworld)(''profileGroup1'' \<mapsto> JBool True)\<rparr>)"
  by (simp add: Profiler_def group_fn_def active_def initPrototype_def active_get_def
      group_lookup_def loose_undefined_def fn_display_name_def arrow_fn_def
      inactive_options_def initial_pworld_def Let_def)

end
